theory Spec2Isabelle
  imports Main "HOL-Library.Word"
begin

unbundle bit_operations_syntax

section \<open>The indexed texture-snapshot loader (android/snapshot/TextureLoader.cpp)\<close>

type_synonym u8 = "8 word"
type_synonym u32 = "32 word"
type_synonym u64 = "64 word"

subsection \<open>The backing stream\<close>

text \<open>
  Modelled from the spec: \<open>android::base::StdioStream\<close> (android/base/files) is not
  among the sources. It wraps a C \<open>FILE*\<close>; the spec's SeekableStream is a byte
  stream over a file with absolute seek, big-endian fixed-width reads and an error
  indicator. The loader calls \<open>getBe32\<close> and \<open>getBe64\<close> on it and, on the \<open>FILE*\<close> it
  hands out, the C library's \<open>fseek\<close> (with \<open>SEEK_SET\<close>) and \<open>ferror\<close>.

  The stream is a record of the file's bytes, the file position and the error
  indicator. Two further fields are there to state claims about I/O: \<open>fault_from\<close>,
  the offset from which the device fails to deliver bytes (\<open>None\<close> for a healthy
  device), and \<open>io_log\<close>, the list of the reads and seeks performed on the stream so
  far, oldest first.
\<close>

datatype io_event = EvRead nat | EvSeek int

record StdioStream =
  contents :: "u8 list"
  fault_from :: "nat option"
  position :: nat
  error_ind :: bool
  io_log :: "io_event list"

text \<open>The bytes the device can deliver: the file's bytes before the faulty offset.\<close>

definition readable :: "StdioStream \<Rightarrow> u8 list" where
  "readable s = (case fault_from s of None \<Rightarrow> contents s | Some k \<Rightarrow> take k (contents s))"

text \<open>
  Modelled from the spec: \<open>StdioStream::read\<close>, not among the sources, is the C
  library's \<open>fread(buf, 1, n, f)\<close>. It delivers the bytes from the position on, at most
  \<open>n\<close>, and advances the position by the number delivered. A short read at the end of
  the file is not an error; a short read while the file has further bytes sets the
  error indicator.
\<close>

definition fread :: "StdioStream \<Rightarrow> nat \<Rightarrow> u8 list \<times> StdioStream" where
  "fread s n =
     (let got = take n (drop (position s) (readable s));
          p = position s + length got
      in (got, s\<lparr>position := p,
                 error_ind := error_ind s \<or> (length got < n \<and> p < length (contents s)),
                 io_log := io_log s @ [EvRead n]\<rparr>))"

text \<open>
  \<open>fseek(f, offset, SEEK_SET)\<close> with \<open>offset\<close> a \<open>long\<close> of 64 bits (the source casts
  the trailer pointer to \<open>int64_t\<close> for it): a negative offset is rejected (\<open>EINVAL\<close>)
  and leaves the position as it is; any other offset becomes the position, also beyond
  the end of the file. The error indicator is not touched. The loader ignores the
  value \<open>fseek\<close> returns, so the model returns the stream only.
\<close>

definition fseek :: "StdioStream \<Rightarrow> int \<Rightarrow> StdioStream" where
  "fseek s off =
     (if off < 0 then s\<lparr>io_log := io_log s @ [EvSeek off]\<rparr>
      else s\<lparr>position := nat off, io_log := io_log s @ [EvSeek off]\<rparr>)"

definition ferror :: "StdioStream \<Rightarrow> bool" where
  "ferror s = error_ind s"

text \<open>Big-endian decoding of a byte sequence, most significant byte first.\<close>

definition be_decode :: "u8 list \<Rightarrow> 'a::len word" where
  "be_decode bs = foldl (\<lambda>acc b. push_bit 8 acc OR ucast b) 0 bs"

text \<open>
  Modelled from the spec: \<open>StdioStream::getBe32\<close> and \<open>getBe64\<close> (android/base/files)
  are not among the sources. The spec gives \<open>read_be32() -> uint32\<close> and
  \<open>read_be64() -> uint64\<close>, big-endian fixed-width reads at the current position. They
  return a value also when the read is short; the spec does not say which, and the
  model takes the bytes that were not delivered as zero (a zero-initialised buffer).
\<close>

definition getBe32 :: "StdioStream \<Rightarrow> u32 \<times> StdioStream" where
  "getBe32 s = (let (got, s') = fread s 4
                in (be_decode (got @ replicate (4 - length got) 0), s'))"

definition getBe64 :: "StdioStream \<Rightarrow> u64 \<times> StdioStream" where
  "getBe64 s = (let (got, s') = fread s 8
                in (be_decode (got @ replicate (8 - length got) 0), s'))"

subsection \<open>The loader\<close>

text \<open>
  The decode callback \<open>loader_t = std::function<void(Stream*)>\<close> consumes the stream
  it is handed; it is a function from the stream it receives to the stream it leaves.
\<close>

type_synonym loader_t = "StdioStream \<Rightarrow> StdioStream"

text \<open>
  \<open>mIndex\<close> is a \<open>std::unordered_map<uint32_t, uint64_t>\<close>: its entries, in the
  order they were inserted. The loader looks entries up by key only.
\<close>

type_synonym index = "(u32 \<times> u64) list"

record TextureLoader =
  mStream :: StdioStream
  mIndex :: index
  mStarted :: bool
  mHasError :: bool

text \<open>
  Modelled from the spec: the member initialisers of \<open>mStarted\<close> and \<open>mHasError\<close> are
  in TextureLoader.h, which is not among the sources. The spec has the loader
  \<open>Uninitialized\<close> after construction, with no I/O done; the constructor in the source
  only moves the stream in.
\<close>

definition newTextureLoader :: "StdioStream \<Rightarrow> TextureLoader" where
  "newTextureLoader stream =
     \<lparr>mStream = stream, mIndex = [], mStarted = False, mHasError = False\<rparr>"

text \<open>
  The two \<open>assert\<close>s of the source are checked (\<open>NDEBUG\<close> is not defined): a failed
  assertion aborts the call, and is the only way a call does not return. A call that
  fails is \<open>Inl (e, l)\<close>: the assertion that failed and the loader at that moment.
\<close>

datatype error =
    AssertIndexSizeZero  \<comment> \<open>\<open>assert(mIndex.size() == 0)\<close> in \<open>readIndex\<close>\<close>
  | AssertIndexCount     \<comment> \<open>\<open>assert(mIndex.count(texId))\<close> in \<open>loadTexture\<close>\<close>

text \<open>\<open>std::unordered_map::emplace\<close>: inserts only if the key is not yet there.\<close>

definition emplace :: "index \<Rightarrow> u32 \<Rightarrow> u64 \<Rightarrow> index" where
  "emplace m k v = (case map_of m k of None \<Rightarrow> m @ [(k, v)] | Some _ \<Rightarrow> m)"

text \<open>The loop \<open>for (uint32_t i = 0; i < texCount; i++)\<close> of \<open>readIndex\<close>, from \<open>i\<close> on.\<close>

function readEntries ::
  "u32 \<Rightarrow> u32 \<Rightarrow> StdioStream \<Rightarrow> index \<Rightarrow> StdioStream \<times> index" where
  "readEntries i texCount s m =
     (if i < texCount then
        (case getBe32 s of (tex, s1) \<Rightarrow>
           (case getBe64 s1 of (filePos, s2) \<Rightarrow>
              readEntries (i + 1) texCount s2 (emplace m tex filePos)))
      else (s, m))"
  by pat_completeness auto
termination
proof (relation "measure (\<lambda>(i, texCount, s, m). unat texCount - unat i)")
  show "wf (measure (\<lambda>(i, texCount, s, m). unat texCount - unat i))"
    by simp
next
  fix i texCount :: u32 and s :: StdioStream and m :: index
    and x :: "u32 \<times> StdioStream" and tex s1 and y :: "u64 \<times> StdioStream" and filePos s2
  assume lt: "i < texCount"
  then have "unat i < unat texCount"
    by (simp add: word_less_nat_alt)
  moreover have "unat texCount < 2 ^ 32"
    using unsigned_less [of texCount, where 'a = nat] by simp
  ultimately have "unat i + unat (1 :: u32) < 2 ^ LENGTH(32)"
    by simp
  then have "unat (i + 1) = unat i + 1"
    by (simp add: unat_add_lem [THEN iffD1])
  with \<open>unat i < unat texCount\<close> show "((i + 1, texCount, s2, emplace m tex filePos), (i, texCount, s, m))
      \<in> measure (\<lambda>(i, texCount, s, m). unat texCount - unat i)"
    by simp
qed

declare readEntries.simps [simp del]

text \<open>
  \<open>readIndex\<close>: the result is the value returned and the loader after the call.
  \<open>mIndex.reserve(texCount)\<close> changes the capacity of the map, not its entries, and
  has no counterpart here; the profiling code under \<open>SNAPSHOT_PROFILE\<close> is left out.
\<close>

definition readIndex :: "TextureLoader \<Rightarrow> (error \<times> TextureLoader) + (bool \<times> TextureLoader)" where
  "readIndex l =
     (if length (mIndex l) \<noteq> 0 then Inl (AssertIndexSizeZero, l)
      else
        (case getBe64 (mStream l) of (indexPos, s1) \<Rightarrow>
           (let s2 = fseek s1 (sint indexPos) in
              (case getBe32 s2 of (version, s3) \<Rightarrow>
                 if version \<noteq> 1 then Inr (False, l\<lparr>mStream := s3\<rparr>)
                 else
                   (case getBe32 s3 of (texCount, s4) \<Rightarrow>
                      (case readEntries 0 texCount s4 (mIndex l) of (s5, idx) \<Rightarrow>
                         Inr (True, l\<lparr>mStream := s5, mIndex := idx\<rparr>)))))))"

definition start :: "TextureLoader \<Rightarrow> (error \<times> TextureLoader) + (bool \<times> TextureLoader)" where
  "start l =
     (if mStarted l then Inr (\<not> mHasError l, l)
      else
        (case readIndex (l\<lparr>mStarted := True\<rparr>) of
           Inl e \<Rightarrow> Inl e
         | Inr (res, l') \<Rightarrow>
             if \<not> res then Inr (False, l'\<lparr>mHasError := True\<rparr>)
             else Inr (True, l')))"

text \<open>
  \<open>loadTexture\<close> returns \<open>void\<close>: the result is the loader after the call, or the
  failed assertion. The index value, a \<open>uint64_t\<close>, is converted to the \<open>long\<close> that
  \<open>fseek\<close> takes. The lock \<open>mLock\<close>, held for the whole call, has no counterpart in
  a model of one call at a time.
\<close>

definition loadTexture ::
  "TextureLoader \<Rightarrow> u32 \<Rightarrow> loader_t \<Rightarrow> (error \<times> TextureLoader) + TextureLoader" where
  "loadTexture l texId loader =
     (case map_of (mIndex l) texId of
        None \<Rightarrow> Inl (AssertIndexCount, l)
      | Some filePos \<Rightarrow>
          (let s1 = fseek (mStream l) (sint filePos);
               s2 = loader s1
           in Inr (l\<lparr>mStream := s2, mHasError := (if ferror s2 then True else mHasError l)\<rparr>)))"

text \<open>
  \<open>loadTexture\<close> in a build that defines \<open>NDEBUG\<close>: the assertion is compiled out,
  and \<open>mIndex[texId]\<close>, the map's \<open>operator[]\<close>, inserts the key with the value 0
  when the key is not there. No call fails, so the result is the loader after the call.
\<close>

definition subscript :: "index \<Rightarrow> u32 \<Rightarrow> u64 \<times> index" where
  "subscript m k = (case map_of m k of None \<Rightarrow> (0, m @ [(k, 0)]) | Some v \<Rightarrow> (v, m))"

definition loadTexture_ndebug :: "TextureLoader \<Rightarrow> u32 \<Rightarrow> loader_t \<Rightarrow> TextureLoader" where
  "loadTexture_ndebug l texId loader =
     (case subscript (mIndex l) texId of (filePos, idx) \<Rightarrow>
        (let s1 = fseek (mStream l) (sint filePos);
             s2 = loader s1
         in l\<lparr>mStream := s2, mIndex := idx,
              mHasError := (if ferror s2 then True else mHasError l)\<rparr>))"

subsection \<open>Sequences of calls\<close>

text \<open>
  A caller's sequence of calls on one loader, run in order; a failed assertion ends the
  run. The value a \<open>start\<close> in the sequence returns is dropped.
\<close>

datatype op = OpStart | OpLoadTexture u32 loader_t

fun step :: "TextureLoader \<Rightarrow> op \<Rightarrow> (error \<times> TextureLoader) + TextureLoader" where
  "step l OpStart = (case start l of Inl e \<Rightarrow> Inl e | Inr (res, l') \<Rightarrow> Inr l')"
| "step l (OpLoadTexture texId loader) = loadTexture l texId loader"

fun run :: "TextureLoader \<Rightarrow> op list \<Rightarrow> (error \<times> TextureLoader) + TextureLoader" where
  "run l [] = Inr l"
| "run l (x # xs) = (case step l x of Inl e \<Rightarrow> Inl e | Inr l' \<Rightarrow> run l' xs)"

text \<open>
  Some \<open>loadTexture\<close> call of the run found the stream's error indicator set after its
  callback had returned.
\<close>

fun load_error_seen :: "TextureLoader \<Rightarrow> op list \<Rightarrow> bool" where
  "load_error_seen l [] = False"
| "load_error_seen l (x # xs) =
     (case step l x of
        Inl e \<Rightarrow> False
      | Inr l' \<Rightarrow>
          (case x of OpStart \<Rightarrow> False | OpLoadTexture texId loader \<Rightarrow> ferror (mStream l'))
            \<or> load_error_seen l' xs)"

subsection \<open>The documented index format\<close>

text \<open>
  The format as the spec writes it (section 6), big-endian throughout: at the initial
  read position 8 bytes with the absolute offset of the index section; at that offset
  4 bytes of version, which must be 1, 4 bytes of record count \<open>N\<close>, and \<open>N\<close> records
  of 4 bytes \<open>texture_id\<close> and 8 bytes \<open>file_offset\<close>.
\<close>

fun be_encode :: "nat \<Rightarrow> 'a::len word \<Rightarrow> u8 list" where
  "be_encode 0 w = []"
| "be_encode (Suc n) w = ucast (drop_bit (8 * n) w) # be_encode n w"

definition encode_record :: "u32 \<times> u64 \<Rightarrow> u8 list" where
  "encode_record r = be_encode 4 (fst r) @ be_encode 8 (snd r)"

definition encode_section :: "u32 \<Rightarrow> (u32 \<times> u64) list \<Rightarrow> u8 list" where
  "encode_section version recs =
     be_encode 4 version @ be_encode 4 (word_of_nat (length recs) :: u32)
       @ concat (map encode_record recs)"

text \<open>The device delivers the bytes \<open>bs\<close> at offset \<open>p\<close> of the stream.\<close>

definition bytes_at :: "StdioStream \<Rightarrow> nat \<Rightarrow> u8 list \<Rightarrow> bool" where
  "bytes_at s p bs \<longleftrightarrow> take (length bs) (drop p (readable s)) = bs"

text \<open>
  A stream presents an index section with the given version and records: the trailer
  pointer is at the read position, it is an offset \<open>fseek\<close> accepts (as every offset
  of a file is), the section is at that offset, and the count fits its 4 bytes.
\<close>

definition presents :: "StdioStream \<Rightarrow> u64 \<Rightarrow> u32 \<Rightarrow> (u32 \<times> u64) list \<Rightarrow> bool" where
  "presents s indexPos version recs \<longleftrightarrow>
     bytes_at s (position s) (be_encode 8 indexPos) \<and>
     0 \<le> sint indexPos \<and>
     bytes_at s (unat indexPos) (encode_section version recs) \<and>
     length recs < 2 ^ 32"

subsection \<open>Example snapshots\<close>

definition openStream :: "u8 list \<Rightarrow> StdioStream" where
  "openStream bs =
     \<lparr>contents = bs, fault_from = None, position = 0, error_ind = False, io_log = []\<rparr>"

text \<open>The snapshot of the spec's end-to-end scenario: three records, index at offset 64.\<close>

definition example_records :: "(u32 \<times> u64) list" where
  "example_records = [(1, 100), (2, 500), (42, 2048)]"

definition example_stream :: StdioStream where
  "example_stream =
     openStream (be_encode 8 (64 :: u64) @ replicate 56 0 @ encode_section 1 example_records)"

text \<open>A snapshot whose index section names texture 7 twice.\<close>

definition dup_records :: "(u32 \<times> u64) list" where
  "dup_records = [(7, 100), (7, 200)]"

definition dup_stream :: StdioStream where
  "dup_stream = openStream (be_encode 8 (8 :: u64) @ encode_section 1 dup_records)"

text \<open>A snapshot whose index section has no record.\<close>

definition empty_stream :: StdioStream where
  "empty_stream = openStream (be_encode 8 (8 :: u64) @ encode_section 1 [])"

text \<open>A snapshot with version 2.\<close>

definition v2_stream :: StdioStream where
  "v2_stream = openStream (be_encode 8 (8 :: u64) @ encode_section 2 example_records)"

text \<open>
  A snapshot cut off after its first record, though its count says 2, and the same
  snapshot in full on a device that fails from offset 28 on, where the second record
  starts.
\<close>

definition truncated_stream :: StdioStream where
  "truncated_stream =
     openStream (be_encode 8 (8 :: u64) @ be_encode 4 (1 :: u32) @ be_encode 4 (2 :: u32)
                   @ encode_record (1, 100))"

definition faulty_stream :: StdioStream where
  "faulty_stream =
     (openStream (be_encode 8 (8 :: u64) @ encode_section 1 [(1, 100), (2, 500)]))
       \<lparr>fault_from := Some 28\<rparr>"

text \<open>A snapshot whose record for texture 1 has the offset \<open>2^63\<close>.\<close>

definition far_records :: "(u32 \<times> u64) list" where
  "far_records = [(1, 9223372036854775808), (2, 500)]"

definition far_stream :: StdioStream where
  "far_stream = openStream (be_encode 8 (8 :: u64) @ encode_section 1 far_records)"

text \<open>
  A snapshot with two payloads of 20 bytes, at the offsets 40 and 60, on a device that
  fails from offset 60 on: the payload of texture 2 cannot be read.
\<close>

definition payload_records :: "(u32 \<times> u64) list" where
  "payload_records = [(1, 40), (2, 60)]"

definition payload_stream :: StdioStream where
  "payload_stream =
     (openStream (be_encode 8 (8 :: u64) @ encode_section 1 payload_records @ replicate 40 171))
       \<lparr>fault_from := Some 60\<rparr>"

text \<open>Two callbacks: one reads four bytes of payload, one reads nothing.\<close>

definition cb_read :: loader_t where
  "cb_read s = snd (getBe32 s)"

definition cb_none :: loader_t where
  "cb_none s = s"

text \<open>The loaders that the examples below reach.\<close>

definition read_log :: "io_event list" where
  "read_log = [EvRead 4, EvRead 8]"

definition example_started :: TextureLoader where
  "example_started =
     \<lparr>mStream = example_stream
        \<lparr>position := 108,
         io_log := [EvRead 8, EvSeek 64, EvRead 4, EvRead 4] @ read_log @ read_log @ read_log\<rparr>,
      mIndex = example_records, mStarted = True, mHasError = False\<rparr>"

definition v2_failed :: TextureLoader where
  "v2_failed =
     \<lparr>mStream = v2_stream\<lparr>position := 12, io_log := [EvRead 8, EvSeek 8, EvRead 4]\<rparr>,
      mIndex = [], mStarted = True, mHasError = True\<rparr>"

definition payload_started :: TextureLoader where
  "payload_started =
     \<lparr>mStream = payload_stream
        \<lparr>position := 40,
         io_log := [EvRead 8, EvSeek 8, EvRead 4, EvRead 4] @ read_log @ read_log\<rparr>,
      mIndex = payload_records, mStarted = True, mHasError = False\<rparr>"

definition payload_failed :: TextureLoader where
  "payload_failed =
     payload_started
       \<lparr>mStream := (mStream payload_started)
          \<lparr>position := 60, error_ind := True,
           io_log := io_log (mStream payload_started) @ [EvSeek 60, EvRead 4]\<rparr>,
        mHasError := True\<rparr>"

definition payload_reloaded :: TextureLoader where
  "payload_reloaded =
     payload_failed
       \<lparr>mStream := (mStream payload_failed)
          \<lparr>position := 44,
           io_log := io_log (mStream payload_failed) @ [EvSeek 40, EvRead 4]\<rparr>\<rparr>"

definition empty_started :: TextureLoader where
  "empty_started =
     \<lparr>mStream = empty_stream
        \<lparr>position := 16, io_log := [EvRead 8, EvSeek 8, EvRead 4, EvRead 4]\<rparr>,
      mIndex = [], mStarted = True, mHasError = False\<rparr>"

definition example_ndebug :: TextureLoader where
  "example_ndebug =
     example_started
       \<lparr>mStream := (mStream example_started)
          \<lparr>position := 4,
           io_log := io_log (mStream example_started) @ [EvSeek 0, EvRead 4]\<rparr>,
        mIndex := example_records @ [(3, 0)]\<rparr>"

definition v2_ndebug :: TextureLoader where
  "v2_ndebug =
     \<lparr>mStream = v2_stream\<lparr>position := 4, io_log := [EvSeek 0, EvRead 4]\<rparr>,
      mIndex = [(1, 0)], mStarted = False, mHasError = False\<rparr>"

definition far_started :: TextureLoader where
  "far_started =
     \<lparr>mStream = far_stream
        \<lparr>position := 40,
         io_log := [EvRead 8, EvSeek 8, EvRead 4, EvRead 4] @ read_log @ read_log\<rparr>,
      mIndex = far_records, mStarted = True, mHasError = False\<rparr>"

definition dup_started :: TextureLoader where
  "dup_started =
     \<lparr>mStream = dup_stream
        \<lparr>position := 40,
         io_log := [EvRead 8, EvSeek 8, EvRead 4, EvRead 4] @ read_log @ read_log\<rparr>,
      mIndex = [(7, 100)], mStarted = True, mHasError = False\<rparr>"

definition truncated_started :: TextureLoader where
  "truncated_started =
     \<lparr>mStream = truncated_stream
        \<lparr>position := 28,
         io_log := [EvRead 8, EvSeek 8, EvRead 4, EvRead 4] @ read_log @ read_log\<rparr>,
      mIndex = [(1, 100), (0, 0)], mStarted = True, mHasError = False\<rparr>"

definition faulty_started :: TextureLoader where
  "faulty_started =
     \<lparr>mStream = faulty_stream
        \<lparr>position := 28, error_ind := True,
         io_log := [EvRead 8, EvSeek 8, EvRead 4, EvRead 4] @ read_log @ read_log\<rparr>,
      mIndex = [(1, 100), (0, 0)], mStarted = True, mHasError = False\<rparr>"

text \<open>The index after \<open>emplace\<close> of a list of records, in their order.\<close>

definition emplace_all :: "index \<Rightarrow> (u32 \<times> u64) list \<Rightarrow> index" where
  "emplace_all m recs = foldl (\<lambda>m r. emplace m (fst r) (snd r)) m recs"

section \<open>Properties of the stream and of the loader\<close>

subsection \<open>Big-endian encoding and decoding\<close>

lemma be_encode_4:
  "be_encode 4 w = [ucast (drop_bit 24 w), ucast (drop_bit 16 w), ucast (drop_bit 8 w), ucast w]"
  by (simp add: eval_nat_numeral)

lemma be_encode_8:
  "be_encode 8 w = [ucast (drop_bit 56 w), ucast (drop_bit 48 w), ucast (drop_bit 40 w),
     ucast (drop_bit 32 w), ucast (drop_bit 24 w), ucast (drop_bit 16 w),
     ucast (drop_bit 8 w), ucast w]"
  by (simp add: eval_nat_numeral)

lemma length_be_encode [simp]: "length (be_encode n w) = n"
  by (induction n) simp_all

lemma ucast_ucast_byte: "(ucast (ucast (x :: 'a::len word) :: u8) :: 'a word) = take_bit 8 x"
  by (rule bit_word_eqI) (auto simp: bit_simps)

lemma foldl_be_encode:
  "foldl (\<lambda>acc b. push_bit 8 acc OR ucast b) (acc :: 'a::len word) (be_encode n w)
     = push_bit (8 * n) acc OR take_bit (8 * n) w"
proof (induction n arbitrary: acc)
  case 0
  then show ?case by simp
next
  case (Suc n)
  have "push_bit (8 * n) (push_bit 8 acc OR take_bit 8 (drop_bit (8 * n) w)) OR take_bit (8 * n) w
      = push_bit (8 + 8 * n) acc OR take_bit (8 + 8 * n) w"
  proof (rule bit_word_eqI)
    fix k assume k: "k < LENGTH('a)"
    show "bit (push_bit (8 * n) (push_bit 8 acc OR take_bit 8 (drop_bit (8 * n) w))
                 OR take_bit (8 * n) w) k
        = bit (push_bit (8 + 8 * n) acc OR take_bit (8 + 8 * n) w) k"
      using k by (cases "k < 8 * n"; cases "k < 8 + 8 * n") (auto simp: bit_simps ac_simps)
  qed
  then show ?case by (simp add: Suc.IH ucast_ucast_byte)
qed

lemma be_decode_encode: "be_decode (be_encode n w) = take_bit (8 * n) w"
  by (simp add: be_decode_def foldl_be_encode)

lemma be_decode_encode_32 [simp]: "be_decode (be_encode 4 (w :: u32)) = w"
  by (simp add: be_decode_encode take_bit_word_eq_self)

lemma be_decode_encode_64 [simp]: "be_decode (be_encode 8 (w :: u64)) = w"
  by (simp add: be_decode_encode take_bit_word_eq_self)

subsection \<open>Reading what the stream holds\<close>

lemma readable_simps [simp]:
  "readable (s\<lparr>position := p\<rparr>) = readable s"
  "readable (s\<lparr>io_log := g\<rparr>) = readable s"
  "readable (s\<lparr>error_ind := e\<rparr>) = readable s"
  by (simp_all add: readable_def split: option.split)

lemma bytes_at_simps [simp]:
  "bytes_at (s\<lparr>position := p\<rparr>) q bs = bytes_at s q bs"
  "bytes_at (s\<lparr>io_log := g\<rparr>) q bs = bytes_at s q bs"
  "bytes_at (s\<lparr>error_ind := e\<rparr>) q bs = bytes_at s q bs"
  by (simp_all add: bytes_at_def)

lemma bytes_at_append:
  "bytes_at s p (a @ b) \<longleftrightarrow> bytes_at s p a \<and> bytes_at s (p + length a) b"
proof
  assume h: "bytes_at s p (a @ b)"
  let ?ys = "drop p (readable s)"
  from h have eq: "take (length a + length b) ?ys = a @ b"
    by (simp add: bytes_at_def)
  have "take (length a) (take (length a + length b) ?ys) = take (length a) (a @ b)"
    by (simp only: eq)
  then have a: "take (length a) ?ys = a"
    by simp
  have "drop (length a) (take (length a + length b) ?ys) = drop (length a) (a @ b)"
    by (simp only: eq)
  then have b: "take (length b) (drop (length a) ?ys) = b"
    by (simp add: drop_take)
  from a b show "bytes_at s p a \<and> bytes_at s (p + length a) b"
    by (simp add: bytes_at_def add.commute)
next
  assume h: "bytes_at s p a \<and> bytes_at s (p + length a) b"
  then show "bytes_at s p (a @ b)"
    by (simp add: bytes_at_def take_add add.commute)
qed

lemma fread_bytes_at:
  assumes "bytes_at s (position s) bs"
  shows "fread s (length bs)
    = (bs, s\<lparr>position := position s + length bs, io_log := io_log s @ [EvRead (length bs)]\<rparr>)"
proof -
  from assms have "take (length bs) (drop (position s) (readable s)) = bs"
    by (simp add: bytes_at_def)
  then show ?thesis
    by (simp add: fread_def Let_def)
qed

lemma getBe32_bytes_at:
  assumes "bytes_at s (position s) (be_encode 4 (w :: u32))"
  shows "getBe32 s = (w, s\<lparr>position := position s + 4, io_log := io_log s @ [EvRead 4]\<rparr>)"
  using fread_bytes_at [OF assms] by (simp add: getBe32_def)

lemma getBe64_bytes_at:
  assumes "bytes_at s (position s) (be_encode 8 (w :: u64))"
  shows "getBe64 s = (w, s\<lparr>position := position s + 8, io_log := io_log s @ [EvRead 8]\<rparr>)"
  using fread_bytes_at [OF assms] by (simp add: getBe64_def)

lemma sint_nonneg_uint:
  assumes "0 \<le> sint (w :: u64)"
  shows "sint w = uint w"
proof -
  have "sint w < 2 ^ 64"
    using sint_less [of w] by simp
  with assms have "take_bit 64 (sint w) = sint w"
    by (simp add: take_bit_int_eq_self)
  moreover have "uint (word_of_int (sint w) :: u64) = take_bit LENGTH(64) (sint w)"
    by (rule uint_word_of_int_eq)
  ultimately show ?thesis
    by simp
qed

lemma fseek_nonneg:
  assumes "0 \<le> sint (w :: u64)"
  shows "fseek s (sint w) = s\<lparr>position := unat w, io_log := io_log s @ [EvSeek (sint w)]\<rparr>"
proof -
  have "nat (sint w) = unat w"
    using sint_nonneg_uint [OF assms] by simp
  with assms show ?thesis
    by (simp add: fseek_def)
qed

subsection \<open>The index that \<open>readIndex\<close> builds\<close>


lemma unat_inc_u32:
  assumes "i < (n :: u32)"
  shows "unat (i + 1) = unat i + 1"
proof -
  have "unat i < unat n"
    using assms by (simp add: word_less_nat_alt)
  moreover have "unat n < 2 ^ 32"
    using unsigned_less [of n, where 'a = nat] by simp
  ultimately have "unat i + unat (1 :: u32) < 2 ^ LENGTH(32)"
    by simp
  then show ?thesis
    by (simp add: unat_add_lem [THEN iffD1])
qed

lemma length_encode_record [simp]: "length (encode_record r) = 12"
  by (simp add: encode_record_def)

lemma encode_record_pair: "encode_record (tex, filePos) = be_encode 4 tex @ be_encode 8 filePos"
  by (simp add: encode_record_def)

lemma readEntries_records:
  assumes "bytes_at s (position s) (concat (map encode_record recs))"
    and "unat i + length recs = unat texCount"
  shows "snd (readEntries i texCount s m) = emplace_all m recs"
  using assms
proof (induction recs arbitrary: i s m)
  case Nil
  then have "\<not> i < texCount"
    by (simp add: word_less_nat_alt)
  then show ?case
    by (simp add: readEntries.simps [of i] emplace_all_def)
next
  case (Cons r recs)
  from Cons.prems(2) have lt: "i < texCount"
    by (simp add: word_less_nat_alt)
  obtain tex filePos where r: "r = (tex, filePos)"
    by (cases r)
  let ?s1 = "s\<lparr>position := position s + 4, io_log := io_log s @ [EvRead 4]\<rparr>"
  let ?s2 = "?s1\<lparr>position := position ?s1 + 8, io_log := io_log ?s1 @ [EvRead 8]\<rparr>"
  from Cons.prems(1) have b1: "bytes_at s (position s) (be_encode 4 tex)"
    and b2: "bytes_at s (position s + 4) (be_encode 8 filePos)"
    and b3: "bytes_at s (position s + 12) (concat (map encode_record recs))"
    by (simp_all add: r encode_record_pair bytes_at_append add.assoc)
  have g1: "getBe32 s = (tex, ?s1)"
    using b1 by (rule getBe32_bytes_at)
  have g2: "getBe64 ?s1 = (filePos, ?s2)"
    using b2 by (intro getBe64_bytes_at) simp
  have "snd (readEntries (i + 1) texCount ?s2 (emplace m tex filePos))
      = emplace_all (emplace m tex filePos) recs"
    using b3 Cons.prems(2) unat_inc_u32 [OF lt]
    by (intro Cons.IH) (simp_all add: add.assoc)
  then show ?case
    using lt by (simp add: readEntries.simps [of i] g1 g2 r emplace_all_def)
qed

lemma map_of_emplace_append:
  "map_of (emplace m k v @ rest) = map_of (m @ (k, v) # rest)"
  by (auto simp: emplace_def fun_eq_iff map_add_def split: option.splits)

lemma map_of_emplace_all: "map_of (emplace_all m recs) = map_of (m @ recs)"
proof (induction recs arbitrary: m)
  case Nil
  then show ?case by (simp add: emplace_all_def)
next
  case (Cons r recs)
  have "map_of (emplace_all (emplace m (fst r) (snd r)) recs) = map_of (emplace m (fst r) (snd r) @ recs)"
    by (rule Cons.IH)
  then show ?case
    using map_of_emplace_append [of m "fst r" "snd r" recs] by (simp add: emplace_all_def)
qed

subsection \<open>The example snapshots, evaluated\<close>

lemmas stream_defs = getBe64_def getBe32_def fread_def fseek_def ferror_def readable_def
  be_decode_def openStream_def
lemmas loader_defs = start_def readIndex_def loadTexture_def newTextureLoader_def
  readEntries.simps emplace_def
lemmas format_defs = encode_section_def encode_record_def be_encode_4 be_encode_8

lemma start_example: "start (newTextureLoader example_stream) = Inr (True, example_started)"
  by (simp add: example_started_def example_stream_def example_records_def read_log_def
      loader_defs stream_defs format_defs)

lemma start_v2: "start (newTextureLoader v2_stream) = Inr (False, v2_failed)"
  by (simp add: v2_failed_def v2_stream_def example_records_def
      loader_defs stream_defs format_defs)

lemma start_payload: "start (newTextureLoader payload_stream) = Inr (True, payload_started)"
  by (simp add: payload_started_def payload_stream_def payload_records_def read_log_def
      loader_defs stream_defs format_defs)

lemma load_payload_2: "loadTexture payload_started 2 cb_read = Inr payload_failed"
  by (simp add: payload_failed_def payload_started_def payload_stream_def payload_records_def
      read_log_def cb_read_def loader_defs stream_defs format_defs)

lemma start_far: "start (newTextureLoader far_stream) = Inr (True, far_started)"
  by (simp add: far_started_def far_stream_def far_records_def read_log_def
      loader_defs stream_defs format_defs)

lemma presents_example: "presents example_stream 64 1 example_records"
  by (simp add: presents_def bytes_at_def example_stream_def example_records_def
      stream_defs format_defs)

text \<open>Short reads: the bytes that are missing.\<close>

lemma replicate_4: "replicate 4 x = [x, x, x, x]"
  by (simp add: eval_nat_numeral)

lemma replicate_8: "replicate 8 x = [x, x, x, x, x, x, x, x]"
  by (simp add: eval_nat_numeral)

lemma start_dup: "start (newTextureLoader dup_stream) = Inr (True, dup_started)"
  by (simp add: dup_started_def dup_stream_def dup_records_def read_log_def
      loader_defs stream_defs format_defs)

lemma start_truncated: "start (newTextureLoader truncated_stream) = Inr (True, truncated_started)"
  by (simp add: truncated_started_def truncated_stream_def read_log_def
      loader_defs stream_defs format_defs replicate_4 replicate_8)

lemma start_faulty: "start (newTextureLoader faulty_stream) = Inr (True, faulty_started)"
  by (simp add: faulty_started_def faulty_stream_def read_log_def
      loader_defs stream_defs format_defs replicate_4 replicate_8)

subsection \<open>\<open>start\<close> on a new loader\<close>

lemma start_new:
  "start (newTextureLoader s) =
     (case getBe64 s of (indexPos, s1) \<Rightarrow>
        (case getBe32 (fseek s1 (sint indexPos)) of (version, s3) \<Rightarrow>
           if version \<noteq> 1 then
             Inr (False, \<lparr>mStream = s3, mIndex = [], mStarted = True, mHasError = True\<rparr>)
           else
             (case getBe32 s3 of (texCount, s4) \<Rightarrow>
                (case readEntries 0 texCount s4 [] of (s5, idx) \<Rightarrow>
                   Inr (True, \<lparr>mStream = s5, mIndex = idx, mStarted = True,
                                mHasError = False\<rparr>)))))"
  by (simp add: start_def readIndex_def newTextureLoader_def Let_def split: prod.splits)

lemma start_pointer_version:
  assumes p: "bytes_at s (position s) (be_encode 8 (indexPos :: u64))"
    and nn: "0 \<le> sint indexPos"
    and v: "bytes_at s (unat indexPos) (be_encode 4 (version :: u32))"
  shows "start (newTextureLoader s) =
     (let s3 = s\<lparr>position := unat indexPos + 4,
                  io_log := io_log s @ [EvRead 8, EvSeek (sint indexPos), EvRead 4]\<rparr>
      in if version \<noteq> 1 then
           Inr (False, \<lparr>mStream = s3, mIndex = [], mStarted = True, mHasError = True\<rparr>)
         else
           (case getBe32 s3 of (texCount, s4) \<Rightarrow>
              (case readEntries 0 texCount s4 [] of (s5, idx) \<Rightarrow>
                 Inr (True, \<lparr>mStream = s5, mIndex = idx, mStarted = True,
                              mHasError = False\<rparr>))))"
proof -
  let ?s1 = "s\<lparr>position := position s + 8, io_log := io_log s @ [EvRead 8]\<rparr>"
  let ?s2 = "?s1\<lparr>position := unat indexPos, io_log := io_log ?s1 @ [EvSeek (sint indexPos)]\<rparr>"
  let ?s3 = "?s2\<lparr>position := position ?s2 + 4, io_log := io_log ?s2 @ [EvRead 4]\<rparr>"
  have g1: "getBe64 s = (indexPos, ?s1)"
    using p by (rule getBe64_bytes_at)
  have sk: "fseek ?s1 (sint indexPos) = ?s2"
    using nn by (rule fseek_nonneg)
  have g2: "getBe32 ?s2 = (version, ?s3)"
    by (intro getBe32_bytes_at) (simp add: v)
  show ?thesis
    unfolding start_new g1 prod.case sk g2 by (simp add: Let_def)
qed

lemma start_presents:
  assumes "presents s indexPos 1 recs"
  shows "\<exists>s'. start (newTextureLoader s)
    = Inr (True, \<lparr>mStream = s', mIndex = emplace_all [] recs, mStarted = True,
                  mHasError = False\<rparr>)"
proof -
  from assms have p: "bytes_at s (position s) (be_encode 8 indexPos)"
    and nn: "0 \<le> sint indexPos"
    and sec: "bytes_at s (unat indexPos) (encode_section 1 recs)"
    and len: "length recs < 2 ^ 32"
    by (simp_all add: presents_def)
  let ?n = "word_of_nat (length recs) :: u32"
  from sec have v: "bytes_at s (unat indexPos) (be_encode 4 (1 :: u32))"
    and c: "bytes_at s (unat indexPos + 4) (be_encode 4 ?n)"
    and r: "bytes_at s (unat indexPos + 8) (concat (map encode_record recs))"
    by (simp_all add: encode_section_def bytes_at_append add.assoc)
  let ?s3 = "s\<lparr>position := unat indexPos + 4,
                io_log := io_log s @ [EvRead 8, EvSeek (sint indexPos), EvRead 4]\<rparr>"
  let ?s4 = "?s3\<lparr>position := position ?s3 + 4, io_log := io_log ?s3 @ [EvRead 4]\<rparr>"
  have g3: "getBe32 ?s3 = (?n, ?s4)"
    by (intro getBe32_bytes_at) (simp add: c)
  have un: "unat ?n = length recs"
    using len by (simp add: unat_of_nat)
  have "snd (readEntries 0 ?n ?s4 []) = emplace_all [] recs"
    by (intro readEntries_records) (simp_all add: r un add.assoc)
  then obtain s5 where g4: "readEntries 0 ?n ?s4 [] = (s5, emplace_all [] recs)"
    by (cases "readEntries 0 ?n ?s4 []") simp
  have "start (newTextureLoader s)
    = Inr (True, \<lparr>mStream = s5, mIndex = emplace_all [] recs, mStarted = True,
                  mHasError = False\<rparr>)"
    unfolding start_pointer_version [OF p nn v] Let_def g3 prod.case g4 by simp
  then show ?thesis ..
qed

lemma map_of_find:
  "map_of recs k = map_option snd (find (\<lambda>r. fst r = k) recs)"
  by (induction recs) auto

subsection \<open>Calls on a started loader\<close>

lemma start_started: "mStarted l \<Longrightarrow> start l = Inr (\<not> mHasError l, l)"
  by (simp add: start_def)

lemma loadTexture_Inr:
  assumes "loadTexture l texId loader = Inr l'"
  shows "mStarted l' = mStarted l" and "mIndex l' = mIndex l"
    and "mHasError l' \<longleftrightarrow> mHasError l \<or> ferror (mStream l')"
  using assms by (auto simp: loadTexture_def Let_def split: option.splits)

lemma step_started:
  assumes "mStarted l" and "step l x = Inr l'"
  shows "mStarted l'" and "mIndex l' = mIndex l"
    and "mHasError l' \<longleftrightarrow> mHasError l
           \<or> (case x of OpStart \<Rightarrow> False | OpLoadTexture texId loader \<Rightarrow> ferror (mStream l'))"
proof -
  show "mStarted l'" and "mIndex l' = mIndex l"
    using assms by (cases x; auto simp: start_started dest: loadTexture_Inr)+
  show "mHasError l' \<longleftrightarrow> mHasError l
           \<or> (case x of OpStart \<Rightarrow> False | OpLoadTexture texId loader \<Rightarrow> ferror (mStream l'))"
  proof (cases x)
    case OpStart
    with assms show ?thesis by (auto simp: start_started)
  next
    case (OpLoadTexture texId loader)
    with assms show ?thesis using loadTexture_Inr(3) [of l texId loader l'] by simp
  qed
qed

lemma run_started:
  assumes "mStarted l" and "run l ops = Inr l'"
  shows "mStarted l' \<and> mIndex l' = mIndex l
           \<and> (mHasError l' \<longleftrightarrow> mHasError l \<or> load_error_seen l ops)"
  using assms
proof (induction ops arbitrary: l)
  case Nil
  then show ?case by simp
next
  case (Cons x xs)
  from Cons.prems(2) obtain lx where sx: "step l x = Inr lx" and rx: "run lx xs = Inr l'"
    by (cases "step l x") simp_all
  note st = step_started [OF Cons.prems(1) sx]
  from Cons.IH [OF st(1) rx] st(2) st(3) sx show ?case
    by auto
qed

lemma run_empty_index:
  assumes "mStarted l" and "mIndex l = []" and "run l ops = Inr l'"
  shows "l' = l"
  using assms
proof (induction ops arbitrary: l')
  case Nil
  then show ?case by simp
next
  case (Cons x xs)
  have "step l x = Inr l"
  proof (cases x)
    case OpStart
    with Cons.prems(1) show ?thesis by (simp add: start_started)
  next
    case (OpLoadTexture texId loader)
    with Cons.prems(2) have "step l x = Inl (AssertIndexCount, l)"
      by (simp add: loadTexture_def)
    with Cons.prems(3) show ?thesis by simp
  qed
  with Cons show ?case by simp
qed

lemma start_new_result:
  assumes "start (newTextureLoader s) = Inr (res, l1)"
  shows "mStarted l1" and "mHasError l1 \<longleftrightarrow> \<not> res" and "\<not> res \<Longrightarrow> mIndex l1 = []"
  using assms by (auto simp: start_new split: prod.splits if_splits)

text \<open>An offset below \<open>2^63\<close> is the same number as a \<open>long\<close>.\<close>

lemma sint_small_uint:
  assumes "unat (w :: u64) < 2 ^ 63"
  shows "sint w = uint w"
proof -
  have "int (unat w) < int (2 ^ 63)"
    using assms by (simp only: of_nat_less_iff)
  then have "uint w < 2 ^ 63"
    by (simp only: of_nat_power of_nat_numeral of_nat_unat)
  moreover have "- (2 ^ 63) \<le> uint w"
    by (rule order_trans [of _ 0]) simp_all
  ultimately have "signed_take_bit 63 (uint w) = uint w"
    by (rule signed_take_bit_int_eq_self [rotated])
  moreover have "sint w = signed_take_bit (LENGTH(64) - Suc 0) (uint w)"
    by (rule sint_uint)
  ultimately show ?thesis
    by simp
qed

section \<open>The claims\<close>

text \<open>
  C1 (round trip). For every stream that presents a well-formed index section (version 1,
  a record count, that many records with pairwise distinct texture ids), \<open>start\<close> on a
  new loader returns success, and the index it has built maps a texture id to a file
  offset exactly when the pair is a record of the section: nothing is missing and
  nothing is extra.
\<close>

theorem start_round_trip:
  assumes "presents s indexPos 1 recs" and "distinct (map fst recs)"
  shows "\<exists>l'. start (newTextureLoader s) = Inr (True, l')
           \<and> (\<forall>texId filePos. map_of (mIndex l') texId = Some filePos
                                  \<longleftrightarrow> (texId, filePos) \<in> set recs)"
proof -
  from start_presents [OF assms(1)] obtain s' where
    st: "start (newTextureLoader s)
      = Inr (True, \<lparr>mStream = s', mIndex = emplace_all [] recs, mStarted = True,
                    mHasError = False\<rparr>)" ..
  have "map_of (emplace_all [] recs) = map_of recs"
    by (simp add: map_of_emplace_all)
  with assms(2) st show ?thesis
    by simp
qed

theorem start_round_trip_witness:
  "presents example_stream 64 1 example_records \<and> distinct (map fst example_records)
     \<and> start (newTextureLoader example_stream) = Inr (True, example_started)
     \<and> map_of (mIndex example_started) 1 = Some 100
     \<and> map_of (mIndex example_started) 2 = Some 500
     \<and> map_of (mIndex example_started) 42 = Some 2048
     \<and> map_of (mIndex example_started) 3 = None"
proof -
  have p: "presents example_stream 64 1 example_records"
    by (rule presents_example)
  have d: "distinct (map fst example_records)"
    by (simp add: example_records_def)
  from start_round_trip [OF p d] obtain l' where
    st: "start (newTextureLoader example_stream) = Inr (True, l')"
    and ix: "\<And>texId filePos. map_of (mIndex l') texId = Some filePos
                                  \<longleftrightarrow> (texId, filePos) \<in> set example_records"
    by blast
  from st have l': "l' = example_started"
    by (simp add: start_example)
  have "map_of (mIndex l') 1 = Some 100" "map_of (mIndex l') 2 = Some 500"
    "map_of (mIndex l') 42 = Some 2048"
    by (simp_all add: ix example_records_def)
  moreover have "map_of (mIndex l') 3 = None"
    using ix [of 3] by (cases "map_of (mIndex l') 3") (auto simp: example_records_def)
  ultimately show ?thesis
    using p d st l' by simp
qed

text \<open>
  C2 (duplicate texture ids), as stated: of two or more records with the same texture id
  the last one in stream order wins. It fails: \<open>emplace\<close> does not replace an entry, so
  the first record wins. In the snapshot below texture 7 has the records \<open>(7, 100)\<close> and
  \<open>(7, 200)\<close>, in this order, and the index maps 7 to 100.
\<close>

theorem start_duplicate_counterexample:
  "presents dup_stream 8 1 dup_records \<and> dup_records = [(7, 100), (7, 200)]
     \<and> start (newTextureLoader dup_stream) = Inr (True, dup_started)
     \<and> map_of (mIndex dup_started) 7 = Some 100
     \<and> map_of (mIndex dup_started) 7 \<noteq> Some 200"
proof -
  have "presents dup_stream 8 1 dup_records"
    by (simp add: presents_def bytes_at_def dup_stream_def dup_records_def
        stream_defs format_defs)
  moreover have "map_of (mIndex dup_started) 7 = Some 100"
    by (simp add: dup_started_def)
  ultimately show ?thesis
    by (simp add: start_dup dup_records_def)
qed

text \<open>
  C2 as amended: for every stream that presents an index section with version 1, with or
  without repeated texture ids, \<open>start\<close> on a new loader returns success and the index
  maps each texture id to the file offset of the first record in stream order that
  has this id (and to nothing if no record has it).
\<close>

theorem start_duplicate_first_wins:
  assumes "presents s indexPos 1 recs"
  shows "\<exists>l'. start (newTextureLoader s) = Inr (True, l')
           \<and> (\<forall>texId. map_of (mIndex l') texId
                          = map_option snd (find (\<lambda>r. fst r = texId) recs))"
proof -
  from start_presents [OF assms] obtain s' where
    st: "start (newTextureLoader s)
      = Inr (True, \<lparr>mStream = s', mIndex = emplace_all [] recs, mStarted = True,
                    mHasError = False\<rparr>)" ..
  have "map_of (emplace_all [] recs) texId = map_option snd (find (\<lambda>r. fst r = texId) recs)"
    for texId
    by (simp add: map_of_emplace_all map_of_find)
  with st show ?thesis
    by simp
qed

theorem start_duplicate_first_wins_witness:
  "presents dup_stream 8 1 dup_records
     \<and> start (newTextureLoader dup_stream) = Inr (True, dup_started)
     \<and> map_of (mIndex dup_started) 7 = map_option snd (find (\<lambda>r. fst r = 7) dup_records)
     \<and> find (\<lambda>r. fst r = 7) dup_records = Some (7, 100)"
proof -
  have p: "presents dup_stream 8 1 dup_records"
    by (simp add: presents_def bytes_at_def dup_stream_def dup_records_def
        stream_defs format_defs)
  from start_duplicate_first_wins [OF p] obtain l' where
    st: "start (newTextureLoader dup_stream) = Inr (True, l')"
    and ix: "\<And>texId. map_of (mIndex l') texId
                         = map_option snd (find (\<lambda>r. fst r = texId) dup_records)"
    by blast
  from st have "l' = dup_started"
    by (simp add: start_dup)
  with p st ix [of 7] show ?thesis
    by (simp add: dup_records_def)
qed

lemma run_append:
  "run l (xs @ ys) = (case run l xs of Inl e \<Rightarrow> Inl e | Inr l' \<Rightarrow> run l' ys)"
  by (induction xs arbitrary: l) (auto split: sum.splits)

lemma start_empty: "start (newTextureLoader empty_stream) = Inr (True, empty_started)"
  by (simp add: empty_started_def empty_stream_def loader_defs stream_defs format_defs Let_def)

lemma load_payload_1: "loadTexture payload_failed 1 cb_read = Inr payload_reloaded"
  by (simp add: payload_reloaded_def payload_failed_def payload_started_def payload_stream_def
      payload_records_def read_log_def cb_read_def loader_defs stream_defs format_defs)

lemma start_payload_failed: "start payload_failed = Inr (False, payload_failed)"
  by (simp add: start_def payload_failed_def payload_started_def)

text \<open>
  C3 (unknown key), as stated: \<open>loadTexture\<close> with a texture id that is not in the
  index fails with \<open>UnknownTextureId\<close>, a failure the caller gets back and recovers
  from, without a seek and without the callback. It fails: the source has no such
  result. With assertions checked the call aborts, and the abort is the end of the run:
  below, the load of texture 2, which is in the index, comes after the load of the
  unknown texture 3 and is never performed. With \<open>NDEBUG\<close> the call inserts the id
  with offset 0, seeks to 0 and invokes the callback, which reads four bytes there.
\<close>

theorem loadTexture_unknown_id_counterexample:
  "start (newTextureLoader example_stream) = Inr (True, example_started)
     \<and> map_of (mIndex example_started) 3 = None
     \<and> map_of (mIndex example_started) 2 = Some 500
     \<and> run example_started [OpLoadTexture 3 cb_read, OpLoadTexture 2 cb_read]
         = Inl (AssertIndexCount, example_started)
     \<and> loadTexture_ndebug example_started 3 cb_read = example_ndebug
     \<and> position (mStream example_ndebug) = 4
     \<and> io_log (mStream example_ndebug) = io_log (mStream example_started) @ [EvSeek 0, EvRead 4]"
proof -
  have "map_of (mIndex example_started) 3 = None"
    and "map_of (mIndex example_started) 2 = Some 500"
    by (simp_all add: example_started_def example_records_def)
  moreover have "run example_started [OpLoadTexture 3 cb_read, OpLoadTexture 2 cb_read]
         = Inl (AssertIndexCount, example_started)"
    by (simp add: loadTexture_def example_started_def example_records_def)
  moreover have "loadTexture_ndebug example_started 3 cb_read = example_ndebug"
    by (simp add: example_ndebug_def example_started_def example_stream_def example_records_def
        read_log_def cb_read_def loadTexture_ndebug_def subscript_def stream_defs format_defs)
  moreover have "position (mStream example_ndebug) = 4"
    and "io_log (mStream example_ndebug) = io_log (mStream example_started) @ [EvSeek 0, EvRead 4]"
    by (simp_all add: example_ndebug_def)
  ultimately show ?thesis
    using start_example by blast
qed

text \<open>
  C3 as amended: a texture id that is not in the index breaks a precondition that
  \<open>loadTexture\<close> asserts. For every loader, so for every loader in state Ready, and
  every such id, in a build that checks assertions the call aborts on
  \<open>assert(mIndex.count(texId))\<close> before any seek and before the callback is invoked
  (the loader at the abort is the loader before the call, stream, position and log
  included, whatever the callback); the abort is fatal: it is not an
  \<open>UnknownTextureId\<close> result, and a sequence of calls ends at this call, whatever
  calls come after it.
\<close>

theorem loadTexture_unknown_id_aborts:
  assumes "run l0 before = Inr l" and "map_of (mIndex l) texId = None"
  shows "loadTexture l texId loader = Inl (AssertIndexCount, l)
           \<and> run l0 (before @ OpLoadTexture texId loader # after) = Inl (AssertIndexCount, l)"
proof -
  have "loadTexture l texId loader = Inl (AssertIndexCount, l)"
    using assms(2) by (simp add: loadTexture_def)
  then show ?thesis
    using assms(1) by (simp add: run_append)
qed

theorem loadTexture_unknown_id_aborts_witness:
  "run (newTextureLoader example_stream) [OpStart] = Inr example_started
     \<and> map_of (mIndex example_started) 3 = None
     \<and> loadTexture example_started 3 cb_read = Inl (AssertIndexCount, example_started)
     \<and> run (newTextureLoader example_stream)
           ([OpStart] @ OpLoadTexture 3 cb_read # [OpLoadTexture 2 cb_read, OpStart])
         = Inl (AssertIndexCount, example_started)"
proof -
  have r: "run (newTextureLoader example_stream) [OpStart] = Inr example_started"
    by (simp add: start_example)
  have n: "map_of (mIndex example_started) 3 = None"
    by (simp add: example_started_def example_records_def)
  from loadTexture_unknown_id_aborts
    [OF r n, of cb_read "[OpLoadTexture 2 cb_read, OpStart]"] r n
  show ?thesis
    by blast
qed

text \<open>
  C4 (loader not Ready), as stated: on a loader that is not Ready, because \<open>start\<close>
  was never called or because \<open>start\<close> returned failure, every \<open>loadTexture\<close> fails
  with \<open>NotReady\<close>, without a seek and without the callback. It fails: \<open>loadTexture\<close>
  does not look at \<open>mStarted\<close> or \<open>mHasError\<close>. Below, \<open>start\<close> on the loader
  \<open>payload_failed\<close> returns failure, and the load of texture 1 seeks to 40 and reads.
  On a loader that was never started the call aborts on the assertion about the key,
  which ends the run (the \<open>start\<close> after it is never performed), exactly as it does
  on a Ready loader whose index has no record; with \<open>NDEBUG\<close> it seeks to 0 and invokes
  the callback.
\<close>

theorem loadTexture_not_ready_counterexample:
  "run (newTextureLoader payload_stream) [OpStart, OpLoadTexture 2 cb_read] = Inr payload_failed
     \<and> start payload_failed = Inr (False, payload_failed)
     \<and> loadTexture payload_failed 1 cb_read = Inr payload_reloaded
     \<and> io_log (mStream payload_reloaded) = io_log (mStream payload_failed) @ [EvSeek 40, EvRead 4]
     \<and> run (newTextureLoader v2_stream) [OpLoadTexture 1 cb_read, OpStart]
         = Inl (AssertIndexCount, newTextureLoader v2_stream)
     \<and> start (newTextureLoader empty_stream) = Inr (True, empty_started)
     \<and> loadTexture empty_started 1 cb_read = Inl (AssertIndexCount, empty_started)
     \<and> loadTexture_ndebug (newTextureLoader v2_stream) 1 cb_read = v2_ndebug
     \<and> io_log (mStream v2_ndebug) = [EvSeek 0, EvRead 4]"
proof -
  have "run (newTextureLoader payload_stream) [OpStart, OpLoadTexture 2 cb_read]
      = Inr payload_failed"
    by (simp add: start_payload load_payload_2)
  moreover have "io_log (mStream payload_reloaded)
      = io_log (mStream payload_failed) @ [EvSeek 40, EvRead 4]"
    by (simp add: payload_reloaded_def)
  moreover have "run (newTextureLoader v2_stream) [OpLoadTexture 1 cb_read, OpStart]
         = Inl (AssertIndexCount, newTextureLoader v2_stream)"
    by (simp add: loadTexture_def newTextureLoader_def)
  moreover have "loadTexture empty_started 1 cb_read = Inl (AssertIndexCount, empty_started)"
    by (simp add: loadTexture_def empty_started_def)
  moreover have "loadTexture_ndebug (newTextureLoader v2_stream) 1 cb_read = v2_ndebug"
    by (simp add: v2_ndebug_def v2_stream_def example_records_def newTextureLoader_def
        cb_read_def loadTexture_ndebug_def subscript_def stream_defs format_defs)
  moreover have "io_log (mStream v2_ndebug) = [EvSeek 0, EvRead 4]"
    by (simp add: v2_ndebug_def)
  ultimately show ?thesis
    using start_payload_failed load_payload_1 start_empty by blast
qed

text \<open>
  C4 as amended: \<open>loadTexture\<close> has no check of the loader's state; what stops a load
  is the assertion about the key. (1) A loader on which \<open>start\<close> was never called, and
  a loader whose first \<open>start\<close> returned failure, whatever calls followed, has an
  empty index: in a build that checks assertions every \<open>loadTexture\<close> on it aborts on
  \<open>assert(mIndex.count(texId))\<close> before any seek and before the callback, and the
  abort is fatal (a sequence of calls ends there), not a \<open>NotReady\<close> result. (2) A
  loader whose first \<open>start\<close> returned success keeps its index whatever calls follow,
  and a \<open>loadTexture\<close> for an id of the index with an offset below \<open>2^63\<close> is
  performed on it (the stream is sought to the offset and the callback invoked once on
  it) also when a stream error has been recorded and \<open>start\<close> now returns failure.
\<close>

theorem loadTexture_no_ready_check:
  "((l = newTextureLoader s
       \<or> (start (newTextureLoader s) = Inr (False, l1) \<and> run l1 ops = Inr l))
      \<longrightarrow> mIndex l = []
          \<and> loadTexture l texId loader = Inl (AssertIndexCount, l)
          \<and> run l (OpLoadTexture texId loader # after) = Inl (AssertIndexCount, l))
   \<and> ((start (newTextureLoader s) = Inr (True, l1) \<and> run l1 ops = Inr l
        \<and> map_of (mIndex l1) texId = Some filePos \<and> unat filePos < 2 ^ 63)
      \<longrightarrow> mIndex l = mIndex l1
          \<and> start l = Inr (\<not> mHasError l, l)
          \<and> loadTexture l texId loader
              = (let s1 = (mStream l)\<lparr>position := unat filePos,
                             io_log := io_log (mStream l) @ [EvSeek (int (unat filePos))]\<rparr>;
                     s2 = loader s1
                 in Inr (l\<lparr>mStream := s2, mHasError := (mHasError l \<or> ferror s2)\<rparr>)))"
proof (intro conjI impI)
  assume h: "l = newTextureLoader s
       \<or> (start (newTextureLoader s) = Inr (False, l1) \<and> run l1 ops = Inr l)"
  then show e: "mIndex l = []"
  proof
    assume "l = newTextureLoader s"
    then show ?thesis by (simp add: newTextureLoader_def)
  next
    assume f: "start (newTextureLoader s) = Inr (False, l1) \<and> run l1 ops = Inr l"
    then have "mStarted l1" and "mIndex l1 = []"
      using start_new_result [of s False l1] by simp_all
    with f have "l = l1"
      by (intro run_empty_index [of l1 ops l]) simp_all
    with \<open>mIndex l1 = []\<close> show ?thesis by simp
  qed
  then show "loadTexture l texId loader = Inl (AssertIndexCount, l)"
    by (simp add: loadTexture_def)
  from e show "run l (OpLoadTexture texId loader # after) = Inl (AssertIndexCount, l)"
    by (simp add: loadTexture_def)
next
  assume h: "start (newTextureLoader s) = Inr (True, l1) \<and> run l1 ops = Inr l
        \<and> map_of (mIndex l1) texId = Some filePos \<and> unat filePos < 2 ^ 63"
  then have st: "mStarted l1"
    using start_new_result(1) [of s True l1] by simp
  from h run_started [OF st, of ops l] show ix: "mIndex l = mIndex l1"
    by simp
  from h run_started [OF st, of ops l] show "start l = Inr (\<not> mHasError l, l)"
    by (simp add: start_started)
  from h have su: "sint filePos = uint filePos"
    by (intro sint_small_uint) simp
  then have "0 \<le> sint filePos"
    by simp
  then have "fseek (mStream l) (sint filePos)
      = (mStream l)\<lparr>position := unat filePos,
                     io_log := io_log (mStream l) @ [EvSeek (sint filePos)]\<rparr>"
    by (rule fseek_nonneg)
  moreover have "sint filePos = int (unat filePos)"
    using su by simp
  ultimately show "loadTexture l texId loader
              = (let s1 = (mStream l)\<lparr>position := unat filePos,
                             io_log := io_log (mStream l) @ [EvSeek (int (unat filePos))]\<rparr>;
                     s2 = loader s1
                 in Inr (l\<lparr>mStream := s2, mHasError := (mHasError l \<or> ferror s2)\<rparr>))"
    using h ix by (simp add: loadTexture_def Let_def)
qed

theorem loadTexture_no_ready_check_witness:
  "loadTexture (newTextureLoader v2_stream) 1 cb_read
       = Inl (AssertIndexCount, newTextureLoader v2_stream)
     \<and> start (newTextureLoader v2_stream) = Inr (False, v2_failed)
     \<and> run v2_failed [OpStart, OpStart] = Inr v2_failed
     \<and> mIndex v2_failed = []
     \<and> run v2_failed (OpLoadTexture 1 cb_read # [OpStart]) = Inl (AssertIndexCount, v2_failed)
     \<and> start (newTextureLoader payload_stream) = Inr (True, payload_started)
     \<and> run payload_started [OpLoadTexture 2 cb_read] = Inr payload_failed
     \<and> map_of (mIndex payload_started) 1 = Some 40 \<and> unat (40 :: u64) < 2 ^ 63
     \<and> mIndex payload_failed = mIndex payload_started
     \<and> start payload_failed = Inr (\<not> mHasError payload_failed, payload_failed)
     \<and> mHasError payload_failed
     \<and> loadTexture payload_failed 1 cb_read = Inr payload_reloaded
     \<and> position (mStream payload_reloaded) = 44"
proof -
  have r: "run v2_failed [OpStart, OpStart] = Inr v2_failed"
    by (simp add: start_def v2_failed_def)
  have a: "newTextureLoader v2_stream = newTextureLoader v2_stream
       \<or> (start (newTextureLoader v2_stream) = Inr (False, v2_failed)
            \<and> run v2_failed [OpStart, OpStart] = Inr (newTextureLoader v2_stream))"
    by simp
  have b: "v2_failed = newTextureLoader v2_stream
       \<or> (start (newTextureLoader v2_stream) = Inr (False, v2_failed)
            \<and> run v2_failed [OpStart, OpStart] = Inr v2_failed)"
    using start_v2 r by blast
  have r2: "run payload_started [OpLoadTexture 2 cb_read] = Inr payload_failed"
    by (simp add: load_payload_2)
  have m: "map_of (mIndex payload_started) 1 = Some 40"
    by (simp add: payload_started_def payload_records_def)
  have u: "unat (40 :: u64) < 2 ^ 63"
    by simp
  have c: "start (newTextureLoader payload_stream) = Inr (True, payload_started)
        \<and> run payload_started [OpLoadTexture 2 cb_read] = Inr payload_failed
        \<and> map_of (mIndex payload_started) 1 = Some 40 \<and> unat (40 :: u64) < 2 ^ 63"
    using start_payload r2 m u by blast
  have e: "mHasError payload_failed" and p: "position (mStream payload_reloaded) = 44"
    by (simp_all add: payload_failed_def payload_reloaded_def)
  note t1 = loadTexture_no_ready_check
    [of "newTextureLoader v2_stream" v2_stream v2_failed "[OpStart, OpStart]" 1 cb_read "[OpStart]",
     THEN conjunct1, rule_format, OF a]
  note t2 = loadTexture_no_ready_check
    [of v2_failed v2_stream v2_failed "[OpStart, OpStart]" 1 cb_read "[OpStart]",
     THEN conjunct1, rule_format, OF b]
  note t3 = loadTexture_no_ready_check
    [of payload_failed payload_stream payload_started "[OpLoadTexture 2 cb_read]" 1 cb_read _ 40,
     THEN conjunct2, rule_format, OF c]
  from t1 t2 t3 start_v2 r start_payload r2 m u e p load_payload_1 show ?thesis
    by blast
qed

text \<open>
  C5 (idempotence of \<open>start\<close>), as stated: every later \<open>start\<close> returns what the first
  call returned, whatever \<open>loadTexture\<close> calls came in between. It fails: a later call
  returns \<open>!mHasError\<close>, and \<open>loadTexture\<close> sets \<open>mHasError\<close> when it finds the stream's
  error indicator set. On the snapshot below the first \<open>start\<close> returns success, the
  load of texture 2 runs into the device fault, and the next \<open>start\<close> returns failure.
\<close>

theorem start_again_counterexample:
  "start (newTextureLoader payload_stream) = Inr (True, payload_started)
     \<and> loadTexture payload_started 2 cb_read = Inr payload_failed
     \<and> start payload_failed = Inr (False, payload_failed)"
proof -
  have "start payload_failed = Inr (False, payload_failed)"
    by (simp add: start_def payload_failed_def payload_started_def)
  then show ?thesis
    by (simp add: start_payload load_payload_2)
qed

text \<open>
  C5 as amended: after the first \<open>start\<close> on a loader, and whatever calls came in
  between, every later \<open>start\<close> performs no stream I/O and leaves the loader as it is
  (the loader returned is the loader given, stream and log included), and it returns
  success exactly when the first call returned success and no \<open>loadTexture\<close> call in
  between found the stream's error indicator set after its callback.
\<close>

theorem start_again:
  assumes "start (newTextureLoader s) = Inr (res, l1)" and "run l1 ops = Inr l2"
  shows "start l2 = Inr (res \<and> \<not> load_error_seen l1 ops, l2)"
proof -
  note first = start_new_result [OF assms(1)]
  from run_started [OF first(1) assms(2)] have "mStarted l2"
    and "mHasError l2 \<longleftrightarrow> mHasError l1 \<or> load_error_seen l1 ops"
    by simp_all
  with first(2) show ?thesis
    by (simp add: start_started)
qed

theorem start_again_witness:
  "start (newTextureLoader payload_stream) = Inr (True, payload_started)
     \<and> run payload_started [OpStart, OpLoadTexture 2 cb_read] = Inr payload_failed
     \<and> load_error_seen payload_started [OpStart, OpLoadTexture 2 cb_read]
     \<and> start payload_failed = Inr (False, payload_failed)
     \<and> run payload_started [OpStart] = Inr payload_started
     \<and> \<not> load_error_seen payload_started [OpStart]
     \<and> start payload_started = Inr (True, payload_started)"
proof -
  have s1: "start payload_started = Inr (True, payload_started)"
    by (simp add: start_def payload_started_def)
  have r1: "run payload_started [OpStart, OpLoadTexture 2 cb_read] = Inr payload_failed"
    by (simp add: s1 load_payload_2)
  have r2: "run payload_started [OpStart] = Inr payload_started"
    by (simp add: s1)
  have e1: "load_error_seen payload_started [OpStart, OpLoadTexture 2 cb_read]"
    by (simp add: s1 load_payload_2) (simp add: payload_failed_def ferror_def)
  have e2: "\<not> load_error_seen payload_started [OpStart]"
    by (simp add: s1)
  from start_again [OF start_payload r1] e1
  have a1: "start payload_failed = Inr (False, payload_failed)"
    by (simp only: simp_thms)
  from start_again [OF start_payload r2] e2
  have a2: "start payload_started = Inr (True, payload_started)"
    by (simp only: simp_thms)
  from start_payload r1 r2 e1 e2 a1 a2 show ?thesis
    by blast
qed

text \<open>
  C6 (version gate). For every stream whose trailer pointer leads to an index section
  with a version field other than 1, \<open>start\<close> on a new loader returns failure; it has
  read the pointer and the version and nothing after them, so no count and no record,
  and the index is empty. The failure is permanent: whatever calls follow, the loader
  stays as it is and every later \<open>start\<close> returns failure.
\<close>

theorem start_version_gate:
  assumes "bytes_at s (position s) (be_encode 8 (indexPos :: u64))"
    and "0 \<le> sint indexPos"
    and "bytes_at s (unat indexPos) (be_encode 4 (version :: u32))"
    and "version \<noteq> 1"
  shows "\<exists>l1. start (newTextureLoader s) = Inr (False, l1)
           \<and> mStarted l1 \<and> mHasError l1 \<and> mIndex l1 = []
           \<and> io_log (mStream l1) = io_log s @ [EvRead 8, EvSeek (sint indexPos), EvRead 4]
           \<and> (\<forall>ops l2. run l1 ops = Inr l2 \<longrightarrow> l2 = l1 \<and> start l2 = Inr (False, l2))"
proof -
  let ?s3 = "s\<lparr>position := unat indexPos + 4,
                io_log := io_log s @ [EvRead 8, EvSeek (sint indexPos), EvRead 4]\<rparr>"
  let ?l1 = "\<lparr>mStream = ?s3, mIndex = [], mStarted = True, mHasError = True\<rparr>"
  have st: "start (newTextureLoader s) = Inr (False, ?l1)"
    using assms(4) by (simp add: start_pointer_version [OF assms(1-3)] Let_def)
  have "l2 = ?l1 \<and> start l2 = Inr (False, l2)" if "run ?l1 ops = Inr l2" for ops l2
  proof -
    have "l2 = ?l1"
      using that by (intro run_empty_index [of ?l1 ops l2]) simp_all
    then show ?thesis
      by (simp add: start_started)
  qed
  with st show ?thesis
    by simp
qed

theorem start_version_gate_witness:
  "bytes_at v2_stream (position v2_stream) (be_encode 8 (8 :: u64))
     \<and> 0 \<le> sint (8 :: u64)
     \<and> bytes_at v2_stream (unat (8 :: u64)) (be_encode 4 (2 :: u32))
     \<and> (2 :: u32) \<noteq> 1
     \<and> start (newTextureLoader v2_stream) = Inr (False, v2_failed)
     \<and> io_log (mStream v2_failed) = io_log v2_stream @ [EvRead 8, EvSeek 8, EvRead 4]
     \<and> run v2_failed [OpStart] = Inr v2_failed
     \<and> start v2_failed = Inr (False, v2_failed)"
proof -
  have h1: "bytes_at v2_stream (position v2_stream) (be_encode 8 (8 :: u64))"
    and h3: "bytes_at v2_stream (unat (8 :: u64)) (be_encode 4 (2 :: u32))"
    by (simp_all add: bytes_at_def v2_stream_def example_records_def stream_defs format_defs)
  have h2: "0 \<le> sint (8 :: u64)" and h4: "(2 :: u32) \<noteq> 1"
    by simp_all
  from start_version_gate [OF h1 h2 h3 h4] obtain l1 where
    st: "start (newTextureLoader v2_stream) = Inr (False, l1)"
    and lg: "io_log (mStream l1) = io_log v2_stream @ [EvRead 8, EvSeek (sint (8 :: u64)), EvRead 4]"
    and perm: "\<And>ops l2. run l1 ops = Inr l2 \<Longrightarrow> l2 = l1 \<and> start l2 = Inr (False, l2)"
    by blast
  from st have l1: "l1 = v2_failed"
    by (simp add: start_v2)
  have r: "run v2_failed [OpStart] = Inr v2_failed"
    by (simp add: start_def v2_failed_def)
  from perm [of "[OpStart]" v2_failed] r l1
  have a: "start v2_failed = Inr (False, v2_failed)"
    by simp
  from lg l1 have b: "io_log (mStream v2_failed) = io_log v2_stream @ [EvRead 8, EvSeek 8, EvRead 4]"
    by simp
  from h1 h2 h3 h4 st l1 a b r show ?thesis
    by blast
qed

text \<open>
  C7 (stream error after a callback), as stated: the \<open>loadTexture\<close> call after which the
  stream's error indicator is set reports failure to its caller. It fails:
  \<open>loadTexture\<close> returns \<open>void\<close>; the call returns as every other call does, and what
  it leaves is the flag \<open>mHasError\<close>. On the snapshot below the load of texture 2
  runs into the device fault and returns.
\<close>

theorem loadTexture_error_counterexample:
  "run (newTextureLoader payload_stream) [OpStart, OpLoadTexture 2 cb_read] = Inr payload_failed
     \<and> ferror (mStream payload_failed) \<and> mHasError payload_failed"
proof -
  have "ferror (mStream payload_failed)" and "mHasError payload_failed"
    by (simp_all add: payload_failed_def ferror_def)
  then show ?thesis
    by (simp add: start_payload load_payload_2)
qed

text \<open>
  C7 as amended: a \<open>loadTexture\<close> call for a texture id of the index, after whose
  callback the stream's error indicator is set, returns without a result value and
  records the sticky flag \<open>mHasError\<close>; the index is as before. A later \<open>start\<close>
  on the (started) loader returns failure. A later \<open>loadTexture\<close> for any texture id
  of the index whose file offset is below \<open>2^63\<close> is still performed: the stream is
  sought to exactly that offset (one \<open>fseek\<close>) and the callback is invoked once, on
  the stream at that position; the flag, which no call clears, stays set.
\<close>

theorem loadTexture_sticky_error:
  assumes "map_of (mIndex l) texId = Some filePos"
    and "ferror (loader (fseek (mStream l) (sint filePos)))"
  shows "\<exists>l'. loadTexture l texId loader = Inr l'
           \<and> mHasError l' \<and> mIndex l' = mIndex l
           \<and> (mStarted l \<longrightarrow> start l' = Inr (False, l'))
           \<and> (\<forall>texId2 filePos2 loader2.
                 map_of (mIndex l) texId2 = Some filePos2 \<and> unat filePos2 < 2 ^ 63 \<longrightarrow>
                 loadTexture l' texId2 loader2
                   = Inr (l'\<lparr>mStream := loader2 ((mStream l')
                            \<lparr>position := unat filePos2,
                             io_log := io_log (mStream l') @ [EvSeek (int (unat filePos2))]\<rparr>)\<rparr>))"
proof -
  let ?l' = "l\<lparr>mStream := loader (fseek (mStream l) (sint filePos)), mHasError := True\<rparr>"
  have a: "loadTexture l texId loader = Inr ?l'"
    using assms by (simp add: loadTexture_def Let_def)
  have b: "start ?l' = Inr (False, ?l')" if "mStarted l"
    using that by (simp add: start_def)
  have c: "loadTexture ?l' texId2 loader2
      = Inr (?l'\<lparr>mStream := loader2 ((mStream ?l')
                \<lparr>position := unat filePos2,
                 io_log := io_log (mStream ?l') @ [EvSeek (int (unat filePos2))]\<rparr>)\<rparr>)"
    if h: "map_of (mIndex l) texId2 = Some filePos2 \<and> unat filePos2 < 2 ^ 63"
    for texId2 filePos2 loader2
  proof -
    from h have su: "sint filePos2 = uint filePos2"
      by (intro sint_small_uint) simp
    then have "0 \<le> sint filePos2"
      by simp
    then have "fseek (mStream ?l') (sint filePos2)
        = (mStream ?l')\<lparr>position := unat filePos2,
                         io_log := io_log (mStream ?l') @ [EvSeek (sint filePos2)]\<rparr>"
      by (rule fseek_nonneg)
    moreover have "sint filePos2 = int (unat filePos2)"
      using su by simp
    ultimately show ?thesis
      using h by (simp add: loadTexture_def Let_def)
  qed
  show ?thesis
  proof (intro exI [of _ ?l'] conjI allI impI)
    show "loadTexture l texId loader = Inr ?l'"
      by (rule a)
    show "mHasError ?l'" and "mIndex ?l' = mIndex l"
      by simp_all
    show "start ?l' = Inr (False, ?l')" if "mStarted l"
      using that by (rule b)
    show "loadTexture ?l' texId2 loader2
      = Inr (?l'\<lparr>mStream := loader2 ((mStream ?l')
                \<lparr>position := unat filePos2,
                 io_log := io_log (mStream ?l') @ [EvSeek (int (unat filePos2))]\<rparr>)\<rparr>)"
      if "map_of (mIndex l) texId2 = Some filePos2 \<and> unat filePos2 < 2 ^ 63"
      for texId2 filePos2 loader2
      using that by (rule c)
  qed
qed

theorem loadTexture_sticky_error_witness:
  "map_of (mIndex payload_started) 2 = Some 60
     \<and> ferror (cb_read (fseek (mStream payload_started) (sint (60 :: u64))))
     \<and> loadTexture payload_started 2 cb_read = Inr payload_failed
     \<and> mHasError payload_failed
     \<and> mStarted payload_started
     \<and> start payload_failed = Inr (False, payload_failed)
     \<and> map_of (mIndex payload_started) 1 = Some 40 \<and> unat (40 :: u64) < 2 ^ 63
     \<and> loadTexture payload_failed 1 cb_read
         = Inr (payload_failed\<lparr>mStream := cb_read ((mStream payload_failed)
                  \<lparr>position := 40, io_log := io_log (mStream payload_failed) @ [EvSeek 40]\<rparr>)\<rparr>)"
proof -
  have h1: "map_of (mIndex payload_started) 2 = Some 60"
    and h3: "map_of (mIndex payload_started) 1 = Some 40"
    and h4: "mStarted payload_started"
    by (simp_all add: payload_started_def payload_records_def)
  have h2: "ferror (cb_read (fseek (mStream payload_started) (sint (60 :: u64))))"
    by (simp add: payload_started_def payload_stream_def payload_records_def read_log_def
        cb_read_def stream_defs format_defs)
  have h5: "unat (40 :: u64) < 2 ^ 63"
    by simp
  from loadTexture_sticky_error [of payload_started 2 60 cb_read, OF h1 h2] obtain l' where
    ld: "loadTexture payload_started 2 cb_read = Inr l'"
    and fl: "mHasError l'"
    and st: "mStarted payload_started \<longrightarrow> start l' = Inr (False, l')"
    and nx: "\<And>texId2 filePos2 loader2.
               map_of (mIndex payload_started) texId2 = Some filePos2 \<and> unat filePos2 < 2 ^ 63 \<Longrightarrow>
                 loadTexture l' texId2 loader2
                   = Inr (l'\<lparr>mStream := loader2 ((mStream l')
                            \<lparr>position := unat filePos2,
                             io_log := io_log (mStream l') @ [EvSeek (int (unat filePos2))]\<rparr>)\<rparr>)"
    by blast
  from ld have l': "l' = payload_failed"
    by (simp add: load_payload_2)
  from nx [of 1 40 cb_read, OF conjI [OF h3 h5]]
  have n1: "loadTexture payload_failed 1 cb_read
         = Inr (payload_failed\<lparr>mStream := cb_read ((mStream payload_failed)
                  \<lparr>position := 40, io_log := io_log (mStream payload_failed) @ [EvSeek 40]\<rparr>)\<rparr>)"
    unfolding l' by simp
  from n1 st h4 fl ld h1 h2 h3 h5 show ?thesis
    unfolding l' by blast
qed

text \<open>
  C8 (seek positioning), as stated: for every texture id of the index, \<open>loadTexture\<close>
  seeks the stream to exactly the file offset of the entry and invokes the callback
  there. It fails for an entry whose offset is \<open>2^63\<close> or more: \<open>fseek\<close> takes a
  \<open>long\<close>, the offset arrives as a negative number, \<open>fseek\<close> rejects it, and the
  callback is invoked at the position the stream had. In the snapshot below texture 1
  has the offset \<open>2^63\<close>; the stream is at 40 after \<open>start\<close>, and still at 40 when the
  callback gets it.
\<close>

theorem loadTexture_seek_counterexample:
  "start (newTextureLoader far_stream) = Inr (True, far_started)
     \<and> map_of (mIndex far_started) 1 = Some 9223372036854775808
     \<and> position (mStream far_started) = 40
     \<and> loadTexture far_started 1 cb_none
         = Inr (far_started\<lparr>mStream := cb_none ((mStream far_started)
                  \<lparr>io_log := io_log (mStream far_started) @ [EvSeek (- 9223372036854775808)]\<rparr>)\<rparr>)
     \<and> position ((mStream far_started)
           \<lparr>io_log := io_log (mStream far_started) @ [EvSeek (- 9223372036854775808)]\<rparr>) = 40"
proof -
  have "map_of (mIndex far_started) 1 = Some 9223372036854775808"
    and "position (mStream far_started) = 40"
    by (simp_all add: far_started_def far_records_def)
  moreover have "loadTexture far_started 1 cb_none
         = Inr (far_started\<lparr>mStream := cb_none ((mStream far_started)
                  \<lparr>io_log := io_log (mStream far_started) @ [EvSeek (- 9223372036854775808)]\<rparr>)\<rparr>)"
    by (simp add: far_started_def far_records_def far_stream_def read_log_def cb_none_def
        loadTexture_def stream_defs)
  ultimately show ?thesis
    by (simp add: start_far)
qed

text \<open>
  C8 as amended: for every loader and every texture id of the index whose file offset
  is below \<open>2^63\<close>, \<open>loadTexture\<close> first seeks the stream to exactly that offset (one
  \<open>fseek\<close>, nothing else done on the stream) and then invokes the callback once, on
  the stream at that position; the stream the callback leaves is the loader's stream
  after the call.
\<close>

theorem loadTexture_seeks:
  assumes "map_of (mIndex l) texId = Some filePos" and "unat filePos < 2 ^ 63"
  shows "loadTexture l texId loader =
     (let s1 = (mStream l)\<lparr>position := unat filePos,
                             io_log := io_log (mStream l) @ [EvSeek (int (unat filePos))]\<rparr>;
          s2 = loader s1
      in Inr (l\<lparr>mStream := s2, mHasError := (mHasError l \<or> ferror s2)\<rparr>))"
proof -
  have su: "sint filePos = uint filePos"
    using assms(2) by (rule sint_small_uint)
  then have "0 \<le> sint filePos"
    by simp
  then have "fseek (mStream l) (sint filePos)
      = (mStream l)\<lparr>position := unat filePos,
                     io_log := io_log (mStream l) @ [EvSeek (sint filePos)]\<rparr>"
    by (rule fseek_nonneg)
  moreover have "sint filePos = int (unat filePos)"
    using su by simp
  ultimately show ?thesis
    using assms(1) by (simp add: loadTexture_def Let_def)
qed

theorem loadTexture_seeks_witness:
  "map_of (mIndex example_started) 2 = Some 500 \<and> unat (500 :: u64) < 2 ^ 63
     \<and> loadTexture example_started 2 cb_read
         = Inr (example_started\<lparr>mStream := cb_read ((mStream example_started)
                  \<lparr>position := 500, io_log := io_log (mStream example_started) @ [EvSeek 500]\<rparr>)\<rparr>)"
proof -
  have h1: "map_of (mIndex example_started) 2 = Some 500"
    by (simp add: example_started_def example_records_def)
  have h2: "unat (500 :: u64) < 2 ^ 63"
    by simp
  have e: "\<not> ferror (cb_read ((mStream example_started)
                  \<lparr>position := 500, io_log := io_log (mStream example_started) @ [EvSeek 500]\<rparr>))"
    by (simp add: example_started_def example_stream_def example_records_def read_log_def
        cb_read_def stream_defs format_defs)
  have f: "\<not> mHasError example_started"
    by (simp add: example_started_def)
  from loadTexture_seeks [OF h1 h2, of cb_read] e f h1 h2 show ?thesis
    by (simp add: Let_def)
qed

text \<open>
  C9 (I/O failures in \<open>start\<close>). The claim: every I/O failure reaches the caller as a
  result; when the stream reports an error while \<open>start\<close> reads the trailer pointer,
  the version, the count or a record, for example because the index section is cut
  off, \<open>start\<close> returns failure and not success with a partial or garbage index.
  The source does not do this, though \<open>start\<close> has a failure path and \<open>loadTexture\<close>
  checks \<open>ferror\<close>: \<open>readIndex\<close> never looks at the stream's error indicator and
  returns \<open>false\<close> for a version other than 1 only. Evaluated at two snapshots whose
  count is 2: in the first the device fails where the second record starts, in the
  second the file ends there. \<open>start\<close> returns success both times, \<open>mHasError\<close> is
  not set, and the index has, besides the first record, an entry made of the bytes
  that were never read; in the first case the stream's error indicator is set.
\<close>

theorem start_unreadable_record_succeeds:
  "start (newTextureLoader faulty_stream) = Inr (True, faulty_started)
     \<and> ferror (mStream faulty_started)
     \<and> \<not> mHasError faulty_started
     \<and> mIndex faulty_started = [(1, 100), (0, 0)]
     \<and> start (newTextureLoader truncated_stream) = Inr (True, truncated_started)
     \<and> length (contents truncated_stream) = 28
     \<and> \<not> mHasError truncated_started
     \<and> mIndex truncated_started = [(1, 100), (0, 0)]"
proof -
  have "ferror (mStream faulty_started)" and "\<not> mHasError faulty_started"
    and "mIndex faulty_started = [(1, 100), (0, 0)]"
    by (simp_all add: faulty_started_def ferror_def)
  moreover have "mIndex truncated_started = [(1, 100), (0, 0)]"
    and "\<not> mHasError truncated_started"
    by (simp_all add: truncated_started_def)
  moreover have "length (contents truncated_stream) = 28"
    by (simp add: truncated_stream_def openStream_def encode_record_def)
  ultimately show ?thesis
    using start_faulty start_truncated by blast
qed

end
